theory Spec2Isabelle
  imports Main "HOL-Library.Word"
begin

section \<open>The webHandler package\<close>

text \<open>
  The package routes messages between websocket connections and the user's control
  code. Construction (\<open>InitWebHandler\<close>) starts two background flows: the control
  loop (\<open>handleWebsocketReceive\<close>), which calls the user's \<open>Message\<close> and
  \<open>Update\<close> methods one at a time, and the outbound dispatcher
  (\<open>handleWebsocketSend\<close>), which writes the envelopes that the user's code sends
  through a \<open>Transmitter\<close>. Every connection has a flow of its own
  (\<open>handleConnection\<close>), and \<open>Shutdown\<close> takes all of it down in order.

  Each function is modelled on the state it reads and writes. A flow that selects
  over channels takes the cases its selects pick as a list, its schedule; a call
  that waits for another flow ends in a value that says where it waits. The user's
  code and the network are parameters: what a callback answers, which writes fail,
  whether an upgrade succeeds.
\<close>

section \<open>Data model\<close>

text \<open>
  Payloads are byte slices. A \<open>*websocket.Conn\<close> is an address; a nil pointer is
  \<open>None\<close>. A \<open>chan Transmitter\<close> is a reference into a store of channels; a nil
  channel is \<open>None\<close>.

  A \<open>SocketHandler\<close> is an interface value, and any type with the two methods
  can be put into it. What the package does with a handler, besides calling its
  methods, is to compare it with \<open>==\<close>, so a handler is modelled by how \<open>==\<close>
  treats it. It is nil; or it holds a value of a dynamic type that Go can compare,
  which \<open>HandlerRef\<close> identifies by what \<open>==\<close> compares (for the handlers of the
  readme, which are pointers, the address); or it holds a value of a comparable type
  that \<open>==\<close> equates with nothing, itself included (a struct passed by value with
  a NaN among its fields): \<open>SelfUnequal\<close>; or it holds a value of a dynamic type
  that Go cannot compare (a struct passed by value that has a slice, a map or a
  function among its fields): \<open>Uncomparable\<close>, with the dynamic type and the
  value.
\<close>

type_synonym bytes = "8 word list"
type_synonym conn = nat
type_synonym chan_ref = nat

datatype SocketHandler = NilHandler | HandlerRef nat | SelfUnequal nat | Uncomparable nat nat

text \<open>Runtime panics of the Go code that the model keeps as values.\<close>

datatype go_panic =
  NilPointerDereference
| CloseOfClosedChannel
| NegativeWaitGroupCounter
| ComparingUncomparableType


text \<open>transmitter.go, lines 9-16: the struct handed to user callbacks.\<close>

record Transmitter =
  ws :: "conn option"
  sh :: SocketHandler
  wt :: "chan_ref option"
  msg :: bytes
  mode :: "8 word"
  maxMode :: "8 word"

text \<open>transmitter.go, lines 22-30: the modes, ordered by magnitude.\<close>

definition Broadcast :: "8 word" where
  "Broadcast = 0"

definition Handle :: "8 word" where
  "Handle = 1"

definition Socket :: "8 word" where
  "Socket = 2"

text \<open>
  A buffered channel of Transmitters: its capacity and the envelopes waiting in it,
  oldest first. The package creates such a channel once (\<open>make(chan Transmitter, 10)\<close>
  in InitWebHandler) and never closes it.
\<close>

record chan =
  chan_cap :: nat
  chan_buf :: "Transmitter list"

type_synonym chans = "chan_ref \<Rightarrow> chan"

definition make_chan :: "nat \<Rightarrow> chan" where
  "make_chan n = \<lparr>chan_cap = n, chan_buf = []\<rparr>"

text \<open>
  The channel send \<open>c <- e\<close>: with room in the buffer the envelope is appended;
  with a full buffer the sending goroutine is parked (\<open>None\<close>) and the channel is
  left as it is.
\<close>

definition chan_send :: "chan_ref \<Rightarrow> Transmitter \<Rightarrow> chans \<Rightarrow> chans option" where
  "chan_send c e cs =
     (if length (chan_buf (cs c)) < chan_cap (cs c)
      then Some (cs(c := (cs c)\<lparr>chan_buf := chan_buf (cs c) @ [e]\<rparr>))
      else None)"

section \<open>Transmitter\<close>

text \<open>
  transmitter.go, lines 63-71. \<open>Send\<close> has a value receiver: the body works on its
  own copy \<open>t\<close>. An outcome records the returned boolean, the receiver variable as
  the body leaves it, and the channel store; or that the call is parked in the
  channel send, with the envelope it is trying to send.
\<close>

datatype send_outcome =
  Returned bool Transmitter chans
| Blocked Transmitter Transmitter chans

definition Send :: "Transmitter \<Rightarrow> bytes \<Rightarrow> 8 word \<Rightarrow> chans \<Rightarrow> send_outcome" where
  "Send t data m cs =
     (if maxMode t < m then Returned False t cs
      else case wt t of
        None \<Rightarrow> Returned False t cs
      | Some c \<Rightarrow>
          (let trCopy = t;
               trCopy = trCopy\<lparr>msg := data\<rparr>;
               trCopy = trCopy\<lparr>mode := m\<rparr>
           in case chan_send c trCopy cs of
                None \<Rightarrow> Blocked t trCopy cs
              | Some cs' \<Rightarrow> Returned True t cs'))"

fun returned :: "send_outcome \<Rightarrow> bool option" where
  "returned (Returned b t cs) = Some b"
| "returned (Blocked t e cs) = None"

fun receiver_after :: "send_outcome \<Rightarrow> Transmitter" where
  "receiver_after (Returned b t cs) = t"
| "receiver_after (Blocked t e cs) = t"

fun store_after :: "send_outcome \<Rightarrow> chans" where
  "store_after (Returned b t cs) = cs"
| "store_after (Blocked t e cs) = cs"

text \<open>Every envelope waiting in a channel asks for a mode within its own ceiling.\<close>

definition chan_authorized :: "chan \<Rightarrow> bool" where
  "chan_authorized q = list_all (\<lambda>e. mode e \<le> maxMode e) (chan_buf q)"

text \<open>
  A caller that calls \<open>Send\<close> \<open>n\<close> times in a row with the same arguments and goes
  on with the store each call leaves (used to reach a full queue from an empty one).
\<close>

fun Send_times :: "nat \<Rightarrow> Transmitter \<Rightarrow> bytes \<Rightarrow> 8 word \<Rightarrow> chans \<Rightarrow> chans" where
  "Send_times 0 t data m cs = cs"
| "Send_times (Suc n) t data m cs = Send_times n t data m (store_after (Send t data m cs))"

section \<open>Outbound dispatcher\<close>

text \<open>
  The registry \<open>wh.clients\<close> maps each live connection to its handler. The network
  side of a dispatch is the list of \<open>WriteMessage\<close> calls issued, in order, and the
  connections whose write returned an error (each is logged, nothing else happens).
  Which writes fail is the environment's choice, the predicate \<open>fails\<close>.
\<close>

type_synonym registry = "conn \<Rightarrow> SocketHandler option"











section \<open>Control loop\<close>

text \<open>private.go, lines 12-16: what a connection flow hands to the control loop.\<close>

record cmdStruct =
  c_msg :: bytes
  c_h :: SocketHandler
  c_ws :: "conn option"

text \<open>
  private.go, lines 218 and 226: the item that the flow of connection \<open>c\<close>, bound
  to \<open>handle\<close>, hands over for a message it has read.
\<close>

definition inbound :: "conn \<Rightarrow> SocketHandler \<Rightarrow> bytes \<Rightarrow> cmdStruct" where
  "inbound c handle message = \<lparr>c_msg = message, c_h = handle, c_ws = Some c\<rparr>"

text \<open>
  The user's code is the environment of the loop. A call of a user method is a
  \<open>callback\<close>; the user's code answers it from its own state by returning,
  by panicking, or by never returning.
\<close>

datatype callback =
  Commander_Message bytes SocketHandler Transmitter
| Handler_Message SocketHandler bytes Transmitter
| Commander_Update Transmitter
| Handler_Update SocketHandler Transmitter
| Commander_Stop

datatype 'a outcome = Return 'a | Panic | Diverge

type_synonym 'u user = "callback \<Rightarrow> 'u \<Rightarrow> 'u outcome"

record 'u loop_state =
  trace :: "callback list"
  ustate :: 'u

datatype 'u flow = Normal "'u loop_state" | Panicking "'u loop_state" | Stuck "'u loop_state"

text \<open>A method call on a nil interface value panics before any user code runs.\<close>

fun nil_receiver :: "callback \<Rightarrow> bool" where
  "nil_receiver (Handler_Message h p tr) = (h = NilHandler)"
| "nil_receiver (Handler_Update h tr) = (h = NilHandler)"
| "nil_receiver cb = False"

definition invoke :: "'u user \<Rightarrow> callback \<Rightarrow> 'u loop_state \<Rightarrow> 'u flow" where
  "invoke usr cb st =
     (if nil_receiver cb then Panicking st
      else case usr cb (ustate st) of
             Return u \<Rightarrow> Normal \<lparr>trace = trace st @ [cb], ustate = u\<rparr>
           | Panic \<Rightarrow> Panicking (st\<lparr>trace := trace st @ [cb]\<rparr>)
           | Diverge \<Rightarrow> Stuck (st\<lparr>trace := trace st @ [cb]\<rparr>))"

fun and_then :: "'u flow \<Rightarrow> ('u loop_state \<Rightarrow> 'u flow) \<Rightarrow> 'u flow" where
  "and_then (Normal st) f = f st"
| "and_then (Panicking st) f = Panicking st"
| "and_then (Stuck st) f = Stuck st"

text \<open>The Transmitter literals of private.go, lines 66 and 96, 102, 105.\<close>

definition message_transmitter :: "chan_ref \<Rightarrow> cmdStruct \<Rightarrow> Transmitter" where
  "message_transmitter wtc m =
     \<lparr>ws = c_ws m, sh = c_h m, wt = Some wtc, msg = [], mode = 0, maxMode = Socket\<rparr>"

definition update_transmitter :: "chan_ref \<Rightarrow> Transmitter" where
  "update_transmitter wtc =
     \<lparr>ws = None, sh = NilHandler, wt = Some wtc, msg = [], mode = 0, maxMode = Broadcast\<rparr>"

definition handler_transmitter :: "chan_ref \<Rightarrow> SocketHandler \<Rightarrow> Transmitter" where
  "handler_transmitter wtc h =
     \<lparr>ws = None, sh = h, wt = Some wtc, msg = [], mode = 0, maxMode = Handle\<rparr>"

text \<open>\<open>m, ok := <-wh.webReceive\<close>: a message, or the channel is closed.\<close>

datatype received = Msg cmdStruct | Closed

text \<open>private.go, lines 64-69 and 94-99: the receive case of both loops.\<close>

definition receive_case :: "'u user \<Rightarrow> chan_ref \<Rightarrow> received \<Rightarrow> 'u loop_state \<Rightarrow> 'u flow" where
  "receive_case usr wtc r st =
     (case r of
        Closed \<Rightarrow> Normal st
      | Msg m \<Rightarrow>
          (let tr = message_transmitter wtc m
           in and_then (invoke usr (Commander_Message (c_msg m) (c_h m) tr) st)
                (invoke usr (Handler_Message (c_h m) (c_msg m) tr))))"

text \<open>private.go, lines 101-107: the ticker case of \<open>runUpdate\<close>.\<close>

fun update_handlers :: "'u user \<Rightarrow> chan_ref \<Rightarrow> SocketHandler list \<Rightarrow> 'u loop_state \<Rightarrow> 'u flow" where
  "update_handlers usr wtc [] st = Normal st"
| "update_handlers usr wtc (h # sl) st =
     and_then (invoke usr (Handler_Update h (handler_transmitter wtc h)) st)
       (update_handlers usr wtc sl)"

definition tick_case :: "'u user \<Rightarrow> chan_ref \<Rightarrow> SocketHandler list \<Rightarrow> 'u loop_state \<Rightarrow> 'u flow" where
  "tick_case usr wtc sl st =
     and_then (invoke usr (Commander_Update (update_transmitter wtc)) st)
       (update_handlers usr wtc sl)"

text \<open>
  What a select of the loop picks: a receive from \<open>webReceive\<close>, the ticker, or the
  closed \<open>exitReceive\<close>. The list of picks is the schedule. A loop ends waiting in
  its select (the schedule ran out), by \<open>break loop\<close>, unwinding from a panic, or
  inside a callback that never returns.
\<close>

datatype select_case = Receive received | Tick | Exit

datatype 'u loop_end =
  Selecting "'u loop_state"
| Broke "'u loop_state"
| Unwinding "'u loop_state"
| Hung "'u loop_state"

text \<open>
  private.go, lines 60-75. \<open>run\<close> creates no ticker: a tick is not among the cases
  of its select, and is passed over.
\<close>

fun run :: "'u user \<Rightarrow> chan_ref \<Rightarrow> SocketHandler list \<Rightarrow> select_case list \<Rightarrow> 'u loop_state \<Rightarrow> 'u loop_end" where
  "run usr wtc sl [] st = Selecting st"
| "run usr wtc sl (Receive r # es) st =
     (case receive_case usr wtc r st of
        Normal s \<Rightarrow> run usr wtc sl es s
      | Panicking s \<Rightarrow> Unwinding s
      | Stuck s \<Rightarrow> Hung s)"
| "run usr wtc sl (Tick # es) st = run usr wtc sl es st"
| "run usr wtc sl (Exit # es) st = Broke st"

text \<open>private.go, lines 84-113.\<close>

fun runUpdate :: "'u user \<Rightarrow> chan_ref \<Rightarrow> SocketHandler list \<Rightarrow> select_case list \<Rightarrow> 'u loop_state \<Rightarrow> 'u loop_end" where
  "runUpdate usr wtc sl [] st = Selecting st"
| "runUpdate usr wtc sl (Receive r # es) st =
     (case receive_case usr wtc r st of
        Normal s \<Rightarrow> runUpdate usr wtc sl es s
      | Panicking s \<Rightarrow> Unwinding s
      | Stuck s \<Rightarrow> Hung s)"
| "runUpdate usr wtc sl (Tick # es) st =
     (case tick_case usr wtc sl st of
        Normal s \<Rightarrow> runUpdate usr wtc sl es s
      | Panicking s \<Rightarrow> Unwinding s
      | Stuck s \<Rightarrow> Hung s)"
| "runUpdate usr wtc sl (Exit # es) st = Broke st"

text \<open>
  private.go, lines 39-52. The deferred function runs when the loop returns and
  when it unwinds from a panic: it calls \<open>sc.Stop()\<close> and closes \<open>finishedExit\<close>.
  \<open>Finished\<close>: the flow returned and \<open>finishedExit\<close> is closed. \<open>Crashed\<close>: the
  flow ended in a panic that nothing recovers. \<open>StillRunning\<close>: the loop is waiting
  in its select. \<open>NeverReturns\<close>: the flow is inside a callback that does not return.
\<close>

datatype 'u receive_end =
  StillRunning "'u loop_state"
| Finished "'u loop_state"
| Crashed "'u loop_state"
| NeverReturns "'u loop_state"

fun state_of :: "'u receive_end \<Rightarrow> 'u loop_state" where
  "state_of (StillRunning s) = s"
| "state_of (Finished s) = s"
| "state_of (Crashed s) = s"
| "state_of (NeverReturns s) = s"

definition handleWebsocketReceive ::
  "'u user \<Rightarrow> chan_ref \<Rightarrow> SocketHandler list \<Rightarrow> int \<Rightarrow> select_case list \<Rightarrow> 'u loop_state \<Rightarrow> 'u receive_end" where
  "handleWebsocketReceive usr wtc sl rate es st =
     (case (if rate > 0 then runUpdate usr wtc sl es st else run usr wtc sl es st) of
        Selecting s \<Rightarrow> StillRunning s
      | Hung s \<Rightarrow> NeverReturns s
      | Broke s \<Rightarrow>
          (case invoke usr Commander_Stop s of
             Normal s' \<Rightarrow> Finished s'
           | Panicking s' \<Rightarrow> Crashed s'
           | Stuck s' \<Rightarrow> NeverReturns s')
      | Unwinding s \<Rightarrow>
          (case invoke usr Commander_Stop s of
             Normal s' \<Rightarrow> Crashed s'
           | Panicking s' \<Rightarrow> Crashed s'
           | Stuck s' \<Rightarrow> NeverReturns s'))"




text \<open>
  Three users for running the loop on concrete inputs. The first returns from every
  callback and counts them. The second panics in the commander's \<open>Message\<close> and
  \<open>Update\<close>. The third panics in the \<open>Message\<close> and the \<open>Update\<close> of
  handler 4.
\<close>

definition counting_user :: "nat user" where
  "counting_user cb u = Return (Suc u)"



section \<open>Construction\<close>

text \<open>
  private.go, lines 25-30: the closure \<open>makeConnectHandler\<close> returns captures the
  handler and the timeout; called, it runs \<open>handleConnection\<close> with them.
\<close>

record connect_handler =
  fn_sh :: SocketHandler
  fn_timeout :: int

definition makeConnectHandler :: "SocketHandler \<Rightarrow> int \<Rightarrow> connect_handler" where
  "makeConnectHandler h timeout = \<lparr>fn_sh = h, fn_timeout = timeout\<rparr>"

text \<open>
  webHandler.go, lines 97-121: the struct. A signal channel (\<open>chan struct{}\<close>) is
  only ever closed: the field is whether it is closed. \<open>wsWG\<close> is the counter of
  the WaitGroup. The registry lock is not a field of the model: each function below
  that takes it is one critical section.
\<close>

record WebHandler =
  exitReceive :: bool
  exitTransmit :: bool
  finishedExit :: bool
  doneConn :: bool
  wsWG :: int
  webReceive :: "cmdStruct list"
  webTransmit :: chan_ref
  clients :: registry
  wFuncs :: "string \<Rightarrow> connect_handler option"

text \<open>public.go, lines 16-25; \<open>wtc\<close> is the channel that \<open>make\<close> returns.\<close>

definition new_WebHandler :: "chan_ref \<Rightarrow> WebHandler" where
  "new_WebHandler wtc =
     \<lparr>exitReceive = False, exitTransmit = False, finishedExit = False, doneConn = False,
      wsWG = 0, webReceive = [], webTransmit = wtc, clients = Map.empty, wFuncs = Map.empty\<rparr>"

text \<open>public.go, line 21: the outbound queue holds ten envelopes.\<close>

definition new_webTransmit :: chan where
  "new_webTransmit = make_chan 10"

text \<open>The channel store right after construction: the outbound queue is empty.\<close>

definition new_chans :: chans where
  "new_chans c = new_webTransmit"

text \<open>
  The commander as construction sees it: what \<open>Start\<close> answers to the map of
  Transmitters (a nil or non-nil error, a panic, or nothing ever), and the values of
  \<open>MessageTimeout()\<close> and \<open>UpdateFrequency()\<close>.
\<close>

record Commander =
  Start :: "(string \<Rightarrow> Transmitter option) \<Rightarrow> string option outcome"
  MessageTimeout :: int
  UpdateFrequency :: int


text \<open>What construction does beyond returning, in order.\<close>

datatype init_effect =
  Call_Start "string \<Rightarrow> Transmitter option"
| Call_MessageTimeout
| Call_UpdateFrequency
| Go_handleWebsocketSend
| Go_handleWebsocketReceive "SocketHandler list" int

datatype init_end =
  InitReturned "WebHandler option" "string option"
| InitPanicked
| InitNeverReturns

text \<open>public.go, lines 29-32: one Transmitter per name of the handler map.\<close>

definition start_transmitters :: "chan_ref \<Rightarrow> (string \<Rightarrow> SocketHandler option) \<Rightarrow> string \<Rightarrow> Transmitter option" where
  "start_transmitters wtc hm s =
     map_option (\<lambda>h. \<lparr>ws = None, sh = h, wt = Some wtc, msg = [], mode = 0, maxMode = Handle\<rparr>) (hm s)"

text \<open>
  public.go, lines 41-44: \<open>for s, h := range hm\<close>, in the order \<open>ord\<close> the runtime
  picks, appends to the handler list and fills \<open>wFuncs\<close>.
\<close>

fun init_handlers ::
  "(string \<Rightarrow> SocketHandler option) \<Rightarrow> int \<Rightarrow> string list \<Rightarrow>
   SocketHandler list \<times> (string \<Rightarrow> connect_handler option) \<Rightarrow>
   SocketHandler list \<times> (string \<Rightarrow> connect_handler option)" where
  "init_handlers hm timeout [] acc = acc"
| "init_handlers hm timeout (s # ss) (sl, fs) =
     (case hm s of
        None \<Rightarrow> init_handlers hm timeout ss (sl, fs)
      | Some h \<Rightarrow> init_handlers hm timeout ss (sl @ [h], fs(s \<mapsto> makeConnectHandler h timeout)))"

text \<open>public.go, lines 15-52.\<close>

definition InitWebHandler ::
  "Commander \<Rightarrow> (string \<Rightarrow> SocketHandler option) \<Rightarrow> string list \<Rightarrow> chan_ref \<Rightarrow> init_end \<times> init_effect list" where
  "InitWebHandler sc hm ord wtc =
     (let wh = new_WebHandler wtc;
          tm = start_transmitters (webTransmit wh) hm
      in case Start sc tm of
           Panic \<Rightarrow> (InitPanicked, [Call_Start tm])
         | Diverge \<Rightarrow> (InitNeverReturns, [Call_Start tm])
         | Return (Some err) \<Rightarrow> (InitReturned None (Some err), [Call_Start tm])
         | Return None \<Rightarrow>
             (let timeout = MessageTimeout sc;
                  (sl, fs) = init_handlers hm timeout ord ([], wFuncs wh)
              in (InitReturned (Some (wh\<lparr>wFuncs := fs\<rparr>)) None,
                  [Call_Start tm, Call_MessageTimeout, Go_handleWebsocketSend,
                   Call_UpdateFrequency, Go_handleWebsocketReceive sl (UpdateFrequency sc)])))"

text \<open>public.go, lines 75-77, on a receiver that may be the nil pointer.\<close>

definition GetWebFunc :: "WebHandler option \<Rightarrow> string \<Rightarrow> go_panic + connect_handler option" where
  "GetWebFunc whp s =
     (case whp of
        None \<Rightarrow> Inl NilPointerDereference
      | Some wh \<Rightarrow> Inr (wFuncs wh s))"

section \<open>Connections and shutdown\<close>

text \<open>
  private.go, lines 177-199: the entry of \<open>handleConnection\<close>, one critical section
  of the registry lock. The upgrade of the request either fails or yields a new
  connection.
\<close>

datatype upgrade = UpgradeError | Upgraded conn

datatype accepted = Rejected | UpgradeFailed | Registered conn

definition handleConnection_enter :: "SocketHandler \<Rightarrow> upgrade \<Rightarrow> WebHandler \<Rightarrow> accepted \<times> WebHandler" where
  "handleConnection_enter handle upg wh =
     (if doneConn wh then (Rejected, wh)
      else
        (let wh1 = wh\<lparr>wsWG := wsWG wh + 1\<rparr>
         in case upg of
              UpgradeError \<Rightarrow> (UpgradeFailed, wh1)
            | Upgraded c \<Rightarrow> (Registered c, wh1\<lparr>clients := (clients wh1)(c \<mapsto> handle)\<rparr>)))"

text \<open>
  private.go, lines 201-208: the deferred function of a registered connection, run
  when its read loop ends. \<open>Done\<close> on a counter of zero panics.
\<close>

definition handleConnection_exit :: "conn \<Rightarrow> WebHandler \<Rightarrow> go_panic + WebHandler" where
  "handleConnection_exit c wh =
     (let wh1 = wh\<lparr>clients := (clients wh)(c := None)\<rparr>
      in if wsWG wh1 - 1 < 0 then Inl NegativeWaitGroupCounter
         else Inr (wh1\<lparr>wsWG := wsWG wh1 - 1\<rparr>))"

text \<open>
  public.go, line 22: the inbound queue holds five items.
\<close>

definition webReceive_cap :: nat where
  "webReceive_cap = 5"

text \<open>
  private.go, lines 216-230: the hand-off of one message that the flow has read. The
  flow waits in a select whose cases are the send to the inbound queue, the exit
  signal and, only when \<open>timeout > 0\<close>, a timer. Which case the select takes is
  its pick, an input; a case can be taken only when it is ready: the send when the
  queue has room, the exit case when \<open>exitReceive\<close> is closed, the timer case
  when the select has one (that the timer fires is the pick). On a pick that is not
  ready the flow stays in the select. \<open>Enqueued\<close>: the item is in the queue and
  the loop goes on to the next read. \<open>Dropped\<close>: the timer case was taken, its
  body is empty, the loop goes on to the next read and the message is gone.
  \<open>Leaving\<close>: \<open>break loop\<close>.
\<close>

datatype handoff_pick = QueueAccepts | TimeoutFires | ExitClosed

datatype handoff_end = Enqueued WebHandler | Dropped | Leaving | Waiting

definition handoff :: "int \<Rightarrow> handoff_pick \<Rightarrow> cmdStruct \<Rightarrow> WebHandler \<Rightarrow> handoff_end" where
  "handoff timeout pick item wh =
     (if timeout > 0 then
        (case pick of
           QueueAccepts \<Rightarrow>
             if length (webReceive wh) < webReceive_cap
             then Enqueued (wh\<lparr>webReceive := webReceive wh @ [item]\<rparr>) else Waiting
         | TimeoutFires \<Rightarrow> Dropped
         | ExitClosed \<Rightarrow> if exitReceive wh then Leaving else Waiting)
      else
        (case pick of
           QueueAccepts \<Rightarrow>
             if length (webReceive wh) < webReceive_cap
             then Enqueued (wh\<lparr>webReceive := webReceive wh @ [item]\<rparr>) else Waiting
         | TimeoutFires \<Rightarrow> Waiting
         | ExitClosed \<Rightarrow> if exitReceive wh then Leaving else Waiting))"

text \<open>
  private.go, lines 210-235: the read loop of the flow of connection \<open>c\<close>, bound
  to \<open>handle\<close>. The flow stands in \<open>ReadMessage\<close>, or in the select of a
  hand-off with the message in hand, or it has left the loop; with it go the struct
  as the flow finds it and the payloads dropped so far. A read returns an error,
  which ends the loop, or a message, which takes the flow into the select. A select
  takes its pick when that case is ready and stays where it is when it is not. In
  between, the other flows change the struct: the control loop takes items from the
  queue, other connection flows add items, \<open>Shutdown\<close> closes channels. The
  schedule lists these events in the order they happen; an event that the flow is
  not waiting for (a read while it is in the select, a pick while it reads, anything
  after it left) does not happen.
\<close>

datatype reader =
  AtRead WebHandler "bytes list"
| AtHandoff bytes WebHandler "bytes list"
| LeftLoop WebHandler "bytes list"

datatype read_case = ReadError | ReadMessage bytes | Select handoff_pick | OtherFlows WebHandler

fun read_step :: "conn \<Rightarrow> SocketHandler \<Rightarrow> int \<Rightarrow> read_case \<Rightarrow> reader \<Rightarrow> reader" where
  "read_step c handle timeout ReadError (AtRead wh d) = LeftLoop wh d"
| "read_step c handle timeout (ReadMessage message) (AtRead wh d) = AtHandoff message wh d"
| "read_step c handle timeout (Select pick) (AtHandoff message wh d) =
     (case handoff timeout pick (inbound c handle message) wh of
        Enqueued wh' \<Rightarrow> AtRead wh' d
      | Dropped \<Rightarrow> AtRead wh (d @ [message])
      | Leaving \<Rightarrow> LeftLoop wh d
      | Waiting \<Rightarrow> AtHandoff message wh d)"
| "read_step c handle timeout (OtherFlows wh') (AtRead wh d) = AtRead wh' d"
| "read_step c handle timeout (OtherFlows wh') (AtHandoff message wh d) = AtHandoff message wh' d"
| "read_step c handle timeout e r = r"

fun read_loop :: "conn \<Rightarrow> SocketHandler \<Rightarrow> int \<Rightarrow> read_case list \<Rightarrow> reader \<Rightarrow> reader" where
  "read_loop c handle timeout [] r = r"
| "read_loop c handle timeout (e # rs) r =
     read_loop c handle timeout rs (read_step c handle timeout e r)"

fun dropped_of :: "reader \<Rightarrow> bytes list" where
  "dropped_of (AtRead wh d) = d"
| "dropped_of (AtHandoff message wh d) = d"
| "dropped_of (LeftLoop wh d) = d"

text \<open>A new WebHandler whose inbound queue holds five items of connection 8.\<close>

definition full_queue_WebHandler :: WebHandler where
  "full_queue_WebHandler =
     (new_WebHandler 0)\<lparr>webReceive := replicate 5 (inbound 8 (HandlerRef 3) [120])\<rparr>"

text \<open>
  The receive case of the control loop's select, \<open><-wh.webReceive\<close>, on the queue
  as it stands: ready when an item is queued, and it takes the oldest.
\<close>

definition take_queued :: "WebHandler \<Rightarrow> (select_case \<times> WebHandler) option" where
  "take_queued wh =
     (case webReceive wh of
        [] \<Rightarrow> None
      | m # q \<Rightarrow> Some (Receive (Msg m), wh\<lparr>webReceive := q\<rparr>))"

text \<open>
  public.go, lines 83-111. \<open>Shutdown\<close> waits twice for other flows: in
  \<open>wsWG.Wait()\<close> until the counter is zero, and in \<open><-wh.finishedExit\<close> until the
  control loop has closed that channel. \<open>Shutdown\<close> is the call run as far as it
  gets on the state it finds; \<open>Shutdown_from_wait\<close> and \<open>Shutdown_from_join\<close>
  take it up again from a wait on a later state.
\<close>

datatype shutdown_end =
  ShutdownPanicked go_panic
| BlockedInWait WebHandler
| BlockedOnLoop WebHandler
| ShutdownReturned WebHandler

definition Shutdown_from_join :: "WebHandler \<Rightarrow> shutdown_end" where
  "Shutdown_from_join wh =
     (if \<not> finishedExit wh then BlockedOnLoop wh
      else if exitTransmit wh then ShutdownPanicked CloseOfClosedChannel
      else ShutdownReturned (wh\<lparr>exitTransmit := True\<rparr>))"

definition Shutdown_from_wait :: "WebHandler \<Rightarrow> shutdown_end" where
  "Shutdown_from_wait wh =
     (if wsWG wh \<noteq> 0 then BlockedInWait wh
      else if exitReceive wh then ShutdownPanicked CloseOfClosedChannel
      else Shutdown_from_join (wh\<lparr>exitReceive := True\<rparr>))"

definition Shutdown :: "WebHandler \<Rightarrow> shutdown_end" where
  "Shutdown wh =
     (if doneConn wh then ShutdownPanicked CloseOfClosedChannel
      else Shutdown_from_wait (wh\<lparr>doneConn := True, clients := Map.empty\<rparr>))"

text \<open>
  What the other flows can do to the struct while \<open>Shutdown\<close> waits, one step at a
  time; the set holds the connections whose flow is in its read loop. A request
  enters \<open>handleConnection\<close>. The flow of a registered connection ends and runs its
  deferred function. A connection flow hands a message to the inbound queue, or the
  control loop takes one. The control loop, once \<open>exitReceive\<close> is closed, leaves
  its loop and closes \<open>finishedExit\<close>; or it unwinds from a panic of a callback and
  closes \<open>finishedExit\<close> on the way.
\<close>

inductive flows_step :: "WebHandler \<times> conn set \<Rightarrow> WebHandler \<times> conn set \<Rightarrow> bool" where
  request:
    "handleConnection_enter h upg wh = (a, wh') \<Longrightarrow>
     flows_step (wh, live)
       (wh', (case a of Registered c \<Rightarrow> insert c live | Rejected \<Rightarrow> live | UpgradeFailed \<Rightarrow> live))"
| flow_ends:
    "c \<in> live \<Longrightarrow> handleConnection_exit c wh = Inr wh' \<Longrightarrow>
     flows_step (wh, live) (wh', live - {c})"
| queue_moves:
    "flows_step (wh, live) (wh\<lparr>webReceive := q\<rparr>, live)"
| loop_finishes:
    "exitReceive wh \<Longrightarrow> flows_step (wh, live) (wh\<lparr>finishedExit := True\<rparr>, live)"
| loop_unwinds:
    "flows_step (wh, live) (wh\<lparr>finishedExit := True\<rparr>, live)"

section \<open>Properties of the Transmitter\<close>

text \<open>
  The outcome of \<open>Send\<close> by cases: refused, enqueued, or parked on a full queue.
\<close>

lemma Send_outcome_cases:
  "Send t data m cs =
     (if maxMode t < m \<or> wt t = None then Returned False t cs
      else if length (chan_buf (cs (the (wt t)))) < chan_cap (cs (the (wt t)))
      then Returned True t
             (cs(the (wt t) := (cs (the (wt t)))
                \<lparr>chan_buf := chan_buf (cs (the (wt t))) @ [t\<lparr>msg := data, mode := m\<rparr>]\<rparr>))
      else Blocked t (t\<lparr>msg := data, mode := m\<rparr>) cs)"
  by (auto simp: Send_def chan_send_def split: option.splits)

text \<open>
  Ten \<open>Send\<close>s on the new outbound queue, with no dispatcher taking envelopes
  (as inside \<open>Commander.Start\<close>, which runs before the dispatcher is started),
  fill it.
\<close>

lemma full_queue:
  "Send_times 10 (handler_transmitter 0 (HandlerRef 3)) [112] Broadcast new_chans =
     new_chans(0 := \<lparr>chan_cap = 10,
        chan_buf = replicate 10 (\<lparr>ws = None, sh = HandlerRef 3, wt = Some 0, msg = [112], mode = 0, maxMode = 1\<rparr>)\<rparr>)"
  by (simp add: handler_transmitter_def Broadcast_def Handle_def new_chans_def new_webTransmit_def make_chan_def
      Send_outcome_cases eval_nat_numeral)

text \<open>
  Claim C2, as the code has it. \<open>Send\<close> returns false exactly when the requested
  mode exceeds the ceiling \<open>maxMode\<close> or no outbound queue is bound, and then leaves
  every queue as it was. Otherwise the bound queue decides: with room in its buffer
  \<open>Send\<close> appends exactly one envelope, the receiver with \<open>msg\<close> and \<open>mode\<close> set
  to the arguments, and returns true; with a full buffer the call neither returns nor
  enqueues, it is parked in the channel send with that envelope. If every waiting
  envelope of every queue asks for a mode within its own ceiling before the call, so
  does every one after it.
\<close>

theorem Send_ceiling_and_queue:
  "(returned (Send t data m cs) = Some False \<longleftrightarrow> maxMode t < m \<or> wt t = None) \<and>
   (returned (Send t data m cs) = Some False \<longrightarrow> Send t data m cs = Returned False t cs) \<and>
   (\<forall>c. \<not> maxMode t < m \<and> wt t = Some c \<and> length (chan_buf (cs c)) < chan_cap (cs c) \<longrightarrow>
        Send t data m cs =
          Returned True t (cs(c := (cs c)\<lparr>chan_buf := chan_buf (cs c) @ [t\<lparr>msg := data, mode := m\<rparr>]\<rparr>))) \<and>
   (\<forall>c. \<not> maxMode t < m \<and> wt t = Some c \<and> \<not> length (chan_buf (cs c)) < chan_cap (cs c) \<longrightarrow>
        Send t data m cs = Blocked t (t\<lparr>msg := data, mode := m\<rparr>) cs) \<and>
   ((\<forall>c. chan_authorized (cs c)) \<longrightarrow> (\<forall>c. chan_authorized (store_after (Send t data m cs) c)))"
  by (auto simp: Send_outcome_cases chan_authorized_def)

text \<open>
  The theorem at three inputs: the commander's update Transmitter asked for
  \<open>Socket\<close> (refused), a handler's Transmitter on the new queue (enqueued), and the
  same Transmitter on the queue after ten sends (parked).
\<close>

theorem Send_ceiling_and_queue_witness:
  "Send (update_transmitter 0) [112] Socket new_chans =
     Returned False (update_transmitter 0) new_chans \<and>
   Send (handler_transmitter 0 (HandlerRef 3)) [112] Handle new_chans =
     Returned True (handler_transmitter 0 (HandlerRef 3))
       (new_chans(0 := \<lparr>chan_cap = 10,
          chan_buf = [\<lparr>ws = None, sh = HandlerRef 3, wt = Some 0, msg = [112], mode = 1, maxMode = 1\<rparr>]\<rparr>)) \<and>
   Send (handler_transmitter 0 (HandlerRef 3)) [112] Broadcast
       (Send_times 10 (handler_transmitter 0 (HandlerRef 3)) [112] Broadcast new_chans) =
     Blocked (handler_transmitter 0 (HandlerRef 3))
       \<lparr>ws = None, sh = HandlerRef 3, wt = Some 0, msg = [112], mode = 0, maxMode = 1\<rparr>
       (Send_times 10 (handler_transmitter 0 (HandlerRef 3)) [112] Broadcast new_chans) \<and>
   chan_authorized
     (store_after (Send (handler_transmitter 0 (HandlerRef 3)) [112] Handle new_chans) 0)"
proof -
  let ?up = "update_transmitter 0" and ?ht = "handler_transmitter 0 (HandlerRef 3)"
  let ?cs = new_chans
  let ?full = "Send_times 10 ?ht [112] Broadcast ?cs"
  have refused: "maxMode ?up < Socket \<or> wt ?up = None"
    by (simp add: update_transmitter_def Socket_def Broadcast_def)
  have room: "\<not> maxMode ?ht < Handle \<and> wt ?ht = Some 0 \<and>
      length (chan_buf (?cs 0)) < chan_cap (?cs 0)"
    by (simp add: handler_transmitter_def Handle_def new_chans_def new_webTransmit_def make_chan_def)
  have full: "\<not> maxMode ?ht < Broadcast \<and> wt ?ht = Some 0 \<and>
      \<not> length (chan_buf (?full 0)) < chan_cap (?full 0)"
    by (simp add: full_queue) (simp add: handler_transmitter_def Handle_def Broadcast_def)
  have auth: "\<forall>c. chan_authorized (?cs c)"
    by (simp add: chan_authorized_def new_chans_def new_webTransmit_def make_chan_def)
  have 1: "Send ?up [112] Socket ?cs = Returned False ?up ?cs"
    using Send_ceiling_and_queue [of ?up "[112]" Socket ?cs] refused by simp
  have 2: "Send ?ht [112] Handle ?cs =
      Returned True ?ht (?cs(0 := (?cs 0)\<lparr>chan_buf := chan_buf (?cs 0) @ [?ht\<lparr>msg := [112], mode := Handle\<rparr>]\<rparr>))"
    using Send_ceiling_and_queue [of ?ht "[112]" Handle ?cs] room by blast
  have 3: "Send ?ht [112] Broadcast ?full = Blocked ?ht (?ht\<lparr>msg := [112], mode := Broadcast\<rparr>) ?full"
    using Send_ceiling_and_queue [of ?ht "[112]" Broadcast ?full] full by blast
  have 4: "chan_authorized (store_after (Send ?ht [112] Handle ?cs) 0)"
    using Send_ceiling_and_queue [of ?ht "[112]" Handle ?cs] auth by blast
  from 1 2 3 4 show ?thesis
    by (simp add: handler_transmitter_def Handle_def Broadcast_def new_chans_def new_webTransmit_def make_chan_def)
qed

text \<open>
  C2 as stated fails on a full queue: the mode is within the ceiling and a queue is
  bound, yet the eleventh \<open>Send\<close> does not return true (it does not return).
\<close>

theorem Send_blocks_on_full_queue:
  "\<not> maxMode (handler_transmitter 0 (HandlerRef 3)) < Broadcast \<and>
   wt (handler_transmitter 0 (HandlerRef 3)) = Some 0 \<and>
   returned (Send (handler_transmitter 0 (HandlerRef 3)) [112] Broadcast
     (Send_times 10 (handler_transmitter 0 (HandlerRef 3)) [112] Broadcast new_chans)) = None"
  by (simp add: full_queue) (simp add: handler_transmitter_def Handle_def Broadcast_def Send_outcome_cases)

text \<open>
  Claim C9. \<open>Send\<close> leaves its receiver as it was, whatever the outcome. When it
  returns true, the queue bound to the receiver has grown by one envelope at its end:
  the receiver with only \<open>msg\<close> and \<open>mode\<close> set to the arguments, so with the
  receiver's websocket, handler, queue and ceiling.
\<close>

theorem Send_leaves_receiver:
  "receiver_after (Send t data m cs) = t \<and>
   (\<forall>c. returned (Send t data m cs) = Some True \<and> wt t = Some c \<longrightarrow>
      chan_buf (store_after (Send t data m cs) c) = chan_buf (cs c) @ [t\<lparr>msg := data, mode := m\<rparr>] \<and>
      ws (last (chan_buf (store_after (Send t data m cs) c))) = ws t \<and>
      sh (last (chan_buf (store_after (Send t data m cs) c))) = sh t \<and>
      wt (last (chan_buf (store_after (Send t data m cs) c))) = wt t \<and>
      maxMode (last (chan_buf (store_after (Send t data m cs) c))) = maxMode t \<and>
      msg (last (chan_buf (store_after (Send t data m cs) c))) = data \<and>
      mode (last (chan_buf (store_after (Send t data m cs) c))) = m)"
  by (auto simp: Send_outcome_cases)

text \<open>
  The theorem on the Transmitter of a message callback, sending in \<open>Socket\<close> mode on
  the new queue.
\<close>

theorem Send_leaves_receiver_witness:
  "returned (Send (message_transmitter 0 \<lparr>c_msg = [104, 105], c_h = HandlerRef 3, c_ws = Some 7\<rparr>) [111, 107] Socket new_chans) = Some True \<and>
   receiver_after (Send (message_transmitter 0 \<lparr>c_msg = [104, 105], c_h = HandlerRef 3, c_ws = Some 7\<rparr>) [111, 107] Socket new_chans) =
     \<lparr>ws = Some 7, sh = HandlerRef 3, wt = Some 0, msg = [], mode = 0, maxMode = 2\<rparr> \<and>
   chan_buf (store_after (Send (message_transmitter 0 \<lparr>c_msg = [104, 105], c_h = HandlerRef 3, c_ws = Some 7\<rparr>) [111, 107] Socket new_chans) 0) =
     [\<lparr>ws = Some 7, sh = HandlerRef 3, wt = Some 0, msg = [111, 107], mode = 2, maxMode = 2\<rparr>]"
proof -
  let ?t = "message_transmitter 0 \<lparr>c_msg = [104, 105], c_h = HandlerRef 3, c_ws = Some 7\<rparr>"
  let ?cs = new_chans
  have h: "returned (Send ?t [111, 107] Socket ?cs) = Some True \<and> wt ?t = Some 0"
    by (simp add: Send_outcome_cases message_transmitter_def Socket_def new_chans_def new_webTransmit_def make_chan_def)
  from Send_leaves_receiver [of ?t "[111, 107]" Socket ?cs] h
  have "receiver_after (Send ?t [111, 107] Socket ?cs) = ?t \<and>
    chan_buf (store_after (Send ?t [111, 107] Socket ?cs) 0) = chan_buf (?cs 0) @ [?t\<lparr>msg := [111, 107], mode := Socket\<rparr>]"
    by blast
  with h show ?thesis
    by (simp add: message_transmitter_def Socket_def new_chans_def new_webTransmit_def make_chan_def)
qed

section \<open>Properties of the dispatcher\<close>
























section \<open>Properties of the control loop\<close>

text \<open>
  A loop that is waiting in its select after a schedule goes on from there with the
  rest of the schedule.
\<close>

lemma run_append:
  "run usr wtc sl (es @ es') st =
     (case run usr wtc sl es st of Selecting s \<Rightarrow> run usr wtc sl es' s | e \<Rightarrow> e)"
  by (induction usr wtc sl es st rule: run.induct) (auto split: flow.splits)

lemma runUpdate_append:
  "runUpdate usr wtc sl (es @ es') st =
     (case runUpdate usr wtc sl es st of Selecting s \<Rightarrow> runUpdate usr wtc sl es' s | e \<Rightarrow> e)"
  by (induction usr wtc sl es st rule: runUpdate.induct) (auto split: flow.splits)

lemma handleWebsocketReceive_running:
  "handleWebsocketReceive usr wtc sl rate es st = StillRunning s \<longleftrightarrow>
     (if rate > 0 then runUpdate usr wtc sl es st else run usr wtc sl es st) = Selecting s"
  by (auto simp: handleWebsocketReceive_def split: loop_end.splits flow.splits)

lemma handleWebsocketReceive_append:
  assumes "handleWebsocketReceive usr wtc sl rate es st = StillRunning s"
  shows "handleWebsocketReceive usr wtc sl rate (es @ es') st =
     handleWebsocketReceive usr wtc sl rate es' s"
  using assms unfolding handleWebsocketReceive_running
  by (simp add: handleWebsocketReceive_def run_append runUpdate_append split: if_splits)






lemma exit_step:
  assumes "handleWebsocketReceive usr wtc sl rate es st = StillRunning s"
  shows "handleWebsocketReceive usr wtc sl rate (es @ Exit # es') st =
     (case usr Commander_Stop (ustate s) of
        Return u' \<Rightarrow> Finished \<lparr>trace = trace s @ [Commander_Stop], ustate = u'\<rparr>
      | Panic \<Rightarrow> Crashed \<lparr>trace = trace s @ [Commander_Stop], ustate = ustate s\<rparr>
      | Diverge \<Rightarrow> NeverReturns \<lparr>trace = trace s @ [Commander_Stop], ustate = ustate s\<rparr>)"
  unfolding handleWebsocketReceive_append [OF assms]
  by (simp add: handleWebsocketReceive_def invoke_def split: outcome.splits)




















text \<open>
  Construction hands the loop one handler per name of the handler map, in the order
  its \<open>range\<close> visited the names.
\<close>

lemma init_handlers_list:
  "fst (init_handlers hm timeout ord (sl, fs)) =
     sl @ map (\<lambda>s. the (hm s)) (filter (\<lambda>s. hm s \<noteq> None) ord)"
  by (induction ord arbitrary: sl fs) (auto split: option.splits)

lemma init_handlers_funcs:
  "snd (init_handlers hm timeout ord (sl, fs)) s =
     (if s \<in> set ord \<and> hm s \<noteq> None then Some (makeConnectHandler (the (hm s)) timeout) else fs s)"
  by (induction ord arbitrary: sl fs) (auto split: option.splits)

lemma init_handlers_dom:
  assumes "set ord = dom hm"
  shows "init_handlers hm timeout ord ([], Map.empty) =
     (map (\<lambda>s. the (hm s)) ord,
      \<lambda>s. map_option (\<lambda>h. makeConnectHandler h timeout) (hm s))"
proof (rule prod_eqI)
  have "filter (\<lambda>s. hm s \<noteq> None) ord = ord"
    using assms by (auto simp: filter_id_conv)
  then show "fst (init_handlers hm timeout ord ([], Map.empty)) =
      fst (map (\<lambda>s. the (hm s)) ord, \<lambda>s. map_option (\<lambda>h. makeConnectHandler h timeout) (hm s))"
    by (simp add: init_handlers_list)
  show "snd (init_handlers hm timeout ord ([], Map.empty)) =
      snd (map (\<lambda>s. the (hm s)) ord, \<lambda>s. map_option (\<lambda>h. makeConnectHandler h timeout) (hm s))"
    using assms by (auto simp: fun_eq_iff init_handlers_funcs)
qed

lemma InitWebHandler_started:
  assumes "set ord = dom hm" and "Start sc (start_transmitters wtc hm) = Return None"
  shows "InitWebHandler sc hm ord wtc =
     (InitReturned (Some ((new_WebHandler wtc)
         \<lparr>wFuncs := \<lambda>s. map_option (\<lambda>h. makeConnectHandler h (MessageTimeout sc)) (hm s)\<rparr>)) None,
      [Call_Start (start_transmitters wtc hm), Call_MessageTimeout, Go_handleWebsocketSend,
       Call_UpdateFrequency,
       Go_handleWebsocketReceive (map (\<lambda>s. the (hm s)) ord) (UpdateFrequency sc)])"
  using assms(2) by (simp add: InitWebHandler_def Let_def init_handlers_dom [OF assms(1)] new_WebHandler_def)






section \<open>Properties of construction\<close>

text \<open>
  Claim C8. When \<open>Commander.Start\<close> returns a non-nil error, \<open>InitWebHandler\<close>
  returns the nil WebHandler and that error, and the call of \<open>Start\<close> is all it
  did: neither background flow is started, and neither \<open>MessageTimeout\<close> nor
  \<open>UpdateFrequency\<close> is read.
\<close>

theorem Start_error_aborts:
  assumes "Start sc (start_transmitters wtc hm) = Return (Some err)"
  shows "InitWebHandler sc hm ord wtc =
           (InitReturned None (Some err), [Call_Start (start_transmitters wtc hm)]) \<and>
         Go_handleWebsocketSend \<notin> set (snd (InitWebHandler sc hm ord wtc)) \<and>
         (\<forall>sl rate. Go_handleWebsocketReceive sl rate \<notin> set (snd (InitWebHandler sc hm ord wtc))) \<and>
         Call_UpdateFrequency \<notin> set (snd (InitWebHandler sc hm ord wtc)) \<and>
         Call_MessageTimeout \<notin> set (snd (InitWebHandler sc hm ord wtc))"
  using assms by (simp add: InitWebHandler_def Let_def new_WebHandler_def)

text \<open>
  The theorem on a commander whose \<open>Start\<close> fails.
\<close>

theorem Start_error_aborts_witness:
  "Start \<lparr>Start = \<lambda>tm. Return (Some ''no port''), MessageTimeout = 5, UpdateFrequency = 1000\<rparr>
       (start_transmitters 0 [''arm'' \<mapsto> HandlerRef 3]) = Return (Some ''no port'') \<and>
   InitWebHandler \<lparr>Start = \<lambda>tm. Return (Some ''no port''), MessageTimeout = 5, UpdateFrequency = 1000\<rparr>
       [''arm'' \<mapsto> HandlerRef 3] [''arm''] 0 =
     (InitReturned None (Some ''no port''), [Call_Start (start_transmitters 0 [''arm'' \<mapsto> HandlerRef 3])])"
proof -
  let ?sc = "\<lparr>Start = \<lambda>tm. Return (Some ''no port''), MessageTimeout = 5, UpdateFrequency = 1000\<rparr>"
  have h: "Start ?sc (start_transmitters 0 [''arm'' \<mapsto> HandlerRef 3]) = Return (Some ''no port'')"
    by simp
  from h Start_error_aborts [OF h, of "[''arm'']"] show ?thesis by blast
qed

text \<open>
  Claim C10. On the WebHandler that a successful \<open>InitWebHandler\<close> returns,
  \<open>GetWebFunc(s)\<close> returns, for every name \<open>s\<close> of the handler map, the non-nil
  connect handler made for that name's handler with the commander's message timeout;
  for every other string it returns nil, and it does not panic.
\<close>

theorem GetWebFunc_names:
  assumes "set ord = dom hm"
    and "InitWebHandler sc hm ord wtc = (InitReturned (Some wh) None, effs)"
  shows "(\<forall>h. hm s = Some h \<longrightarrow>
            GetWebFunc (Some wh) s = Inr (Some (makeConnectHandler h (MessageTimeout sc)))) \<and>
         (hm s = None \<longrightarrow> GetWebFunc (Some wh) s = Inr None)"
proof (cases "Start sc (start_transmitters wtc hm)")
  case (Return e)
  show ?thesis
  proof (cases e)
    case None
    with Return assms show ?thesis
      by (auto simp: InitWebHandler_started GetWebFunc_def)
  next
    case (Some err)
    with Return assms(2) show ?thesis
      by (simp add: InitWebHandler_def Let_def new_WebHandler_def)
  qed
next
  case Panic
  with assms(2) show ?thesis by (simp add: InitWebHandler_def Let_def new_WebHandler_def)
next
  case Diverge
  with assms(2) show ?thesis by (simp add: InitWebHandler_def Let_def new_WebHandler_def)
qed

text \<open>
  The theorem on the handler map of the names arm and claw: the name arm has its
  connect handler, the name wheel has none.
\<close>

theorem GetWebFunc_names_witness:
  "set [''claw'', ''arm''] = dom [''arm'' \<mapsto> HandlerRef 3, ''claw'' \<mapsto> HandlerRef 4] \<and>
   InitWebHandler \<lparr>Start = \<lambda>tm. Return None, MessageTimeout = 5, UpdateFrequency = 1000\<rparr>
       [''arm'' \<mapsto> HandlerRef 3, ''claw'' \<mapsto> HandlerRef 4] [''claw'', ''arm''] 0 =
     (InitReturned (Some ((new_WebHandler 0)\<lparr>wFuncs :=
         \<lambda>s. map_option (\<lambda>h. makeConnectHandler h 5) ([''arm'' \<mapsto> HandlerRef 3, ''claw'' \<mapsto> HandlerRef 4] s)\<rparr>)) None,
      [Call_Start (start_transmitters 0 [''arm'' \<mapsto> HandlerRef 3, ''claw'' \<mapsto> HandlerRef 4]),
       Call_MessageTimeout, Go_handleWebsocketSend, Call_UpdateFrequency,
       Go_handleWebsocketReceive [HandlerRef 4, HandlerRef 3] 1000]) \<and>
   GetWebFunc (Some ((new_WebHandler 0)\<lparr>wFuncs :=
         \<lambda>s. map_option (\<lambda>h. makeConnectHandler h 5) ([''arm'' \<mapsto> HandlerRef 3, ''claw'' \<mapsto> HandlerRef 4] s)\<rparr>))
       ''arm'' = Inr (Some \<lparr>fn_sh = HandlerRef 3, fn_timeout = 5\<rparr>) \<and>
   GetWebFunc (Some ((new_WebHandler 0)\<lparr>wFuncs :=
         \<lambda>s. map_option (\<lambda>h. makeConnectHandler h 5) ([''arm'' \<mapsto> HandlerRef 3, ''claw'' \<mapsto> HandlerRef 4] s)\<rparr>))
       ''wheel'' = Inr None"
proof -
  let ?sc = "\<lparr>Start = \<lambda>tm. Return None, MessageTimeout = 5, UpdateFrequency = 1000\<rparr>"
  let ?hm = "[''arm'' \<mapsto> HandlerRef 3, ''claw'' \<mapsto> HandlerRef 4]"
  let ?ord = "[''claw'', ''arm'']"
  let ?wh = "(new_WebHandler 0)\<lparr>wFuncs := \<lambda>s. map_option (\<lambda>h. makeConnectHandler h 5) (?hm s)\<rparr>"
  let ?effs = "[Call_Start (start_transmitters 0 ?hm),
       Call_MessageTimeout, Go_handleWebsocketSend, Call_UpdateFrequency,
       Go_handleWebsocketReceive [HandlerRef 4, HandlerRef 3] 1000]"
  have d: "set ?ord = dom ?hm" by auto
  have i: "InitWebHandler ?sc ?hm ?ord 0 = (InitReturned (Some ?wh) None, ?effs)"
    by (simp add: InitWebHandler_started [OF d])
  have k: "?hm ''arm'' = Some (HandlerRef 3)" "?hm ''wheel'' = None" by simp_all
  from GetWebFunc_names [OF d i, of "''arm''"] k(1)
  have a: "GetWebFunc (Some ?wh) ''arm'' = Inr (Some (makeConnectHandler (HandlerRef 3) (MessageTimeout ?sc)))"
    by blast
  from GetWebFunc_names [OF d i, of "''wheel''"] k(2)
  have b: "GetWebFunc (Some ?wh) ''wheel'' = Inr None"
    by blast
  from d i a b show ?thesis by (simp add: makeConnectHandler_def)
qed

section \<open>Properties of the hand-off\<close>

text \<open>A schedule in two parts.\<close>

lemma read_loop_append:
  "read_loop c handle timeout (rs @ rs') r =
     read_loop c handle timeout rs' (read_loop c handle timeout rs r)"
  by (induction rs arbitrary: r) simp_all

text \<open>The hand-off by the pick of its select.\<close>

lemma handoff_Dropped:
  "handoff timeout pick item wh = Dropped \<longleftrightarrow> 0 < timeout \<and> pick = TimeoutFires"
  by (cases pick) (simp_all add: handoff_def)

lemma handoff_Enqueued:
  "handoff timeout pick item wh = Enqueued wh' \<longleftrightarrow>
     pick = QueueAccepts \<and> length (webReceive wh) < webReceive_cap \<and>
     wh' = wh\<lparr>webReceive := webReceive wh @ [item]\<rparr>"
  by (cases pick) (auto simp: handoff_def)

lemma handoff_Leaving:
  "handoff timeout pick item wh = Leaving \<longleftrightarrow> pick = ExitClosed \<and> exitReceive wh"
  by (cases pick) (simp_all add: handoff_def)

lemma handoff_Waiting:
  "handoff timeout pick item wh = Waiting \<longleftrightarrow>
     timeout \<le> 0 \<and> pick = TimeoutFires \<or>
     pick = QueueAccepts \<and> webReceive_cap \<le> length (webReceive wh) \<or>
     pick = ExitClosed \<and> \<not> exitReceive wh"
  by (cases pick) (auto simp: handoff_def)

text \<open>
  Without a timeout the read loop drops nothing, whatever its schedule and whatever
  the other flows do.
\<close>

lemma read_step_drops_nothing:
  "timeout \<le> 0 \<Longrightarrow> dropped_of (read_step c handle timeout e r) = dropped_of r"
proof (induction c handle timeout e r rule: read_step.induct)
  case (3 c handle timeout pick message wh d)
  then have "handoff timeout pick (inbound c handle message) wh \<noteq> Dropped"
    by (simp add: handoff_Dropped)
  then show ?case
    by (cases "handoff timeout pick (inbound c handle message) wh") simp_all
qed simp_all

lemma read_loop_drops_nothing:
  "timeout \<le> 0 \<Longrightarrow> dropped_of (read_loop c handle timeout rs r) = dropped_of r"
  by (induction rs arbitrary: r) (simp_all add: read_step_drops_nothing)

text \<open>
  Without a timeout, with \<open>exitReceive\<close> open and the queue full, the select
  takes no case, however often it is tried.
\<close>

lemma read_loop_waits:
  assumes "timeout \<le> 0" and "\<not> exitReceive wh" and "webReceive_cap \<le> length (webReceive wh)"
  shows "read_loop c handle timeout (map Select picks) (AtHandoff p wh d) = AtHandoff p wh d"
proof (induction picks)
  case Nil
  then show ?case by simp
next
  case (Cons pick picks)
  have "handoff timeout pick (inbound c handle p) wh = Waiting"
    using assms by (cases pick) (simp_all add: handoff_Waiting)
  with Cons show ?case by simp
qed

text \<open>
  Claim C6, as the code has it. Take the flow of connection \<open>c\<close> waiting in
  \<open>ReadMessage\<close>, with the struct as the other flows have left it, and let it
  read the message \<open>p\<close>: it is in the select of the hand-off with \<open>p\<close> in hand.
  Let the select pick \<open>pick\<close>. The message is dropped, and the flow back at its
  next read with the queue as it was, exactly when the timeout is positive and the
  select takes its timer case. When the queue has room and the select takes the
  send, the item of the message is the newest of the queue and the flow is back at
  its next read. When \<open>exitReceive\<close> is closed and the select takes that case,
  the flow leaves its loop and the message is in no queue. In every other case the
  flow stays in the select with the message in hand; when the timeout is not
  positive, \<open>exitReceive\<close> is open and the queue is full, it stays there however
  often the select is tried, until another flow changes the struct. With a timeout
  that is not positive the flow drops no message, on any schedule, whatever the other
  flows do. A message in the queue is not yet delivered: once the control loop, from
  its select, takes the exit signal, the one callback it still makes is
  \<open>Commander.Stop()\<close>, whatever is queued behind.
\<close>

theorem message_hand_off:
  assumes "read_loop c handle timeout rs r0 = AtRead wh d"
  shows "read_loop c handle timeout (rs @ [ReadMessage p]) r0 = AtHandoff p wh d \<and>
         (read_loop c handle timeout (rs @ [ReadMessage p, Select pick]) r0 = AtRead wh (d @ [p]) \<longleftrightarrow>
            0 < timeout \<and> pick = TimeoutFires) \<and>
         (dropped_of (read_loop c handle timeout (rs @ [ReadMessage p, Select pick]) r0) =
            (if 0 < timeout \<and> pick = TimeoutFires then d @ [p] else d)) \<and>
         (pick = QueueAccepts \<and> length (webReceive wh) < webReceive_cap \<longrightarrow>
            read_loop c handle timeout (rs @ [ReadMessage p, Select pick]) r0 =
              AtRead (wh\<lparr>webReceive := webReceive wh @ [inbound c handle p]\<rparr>) d) \<and>
         (pick = ExitClosed \<and> exitReceive wh \<longrightarrow>
            read_loop c handle timeout (rs @ [ReadMessage p, Select pick]) r0 = LeftLoop wh d) \<and>
         (timeout \<le> 0 \<and> pick = TimeoutFires \<or>
          pick = QueueAccepts \<and> webReceive_cap \<le> length (webReceive wh) \<or>
          pick = ExitClosed \<and> \<not> exitReceive wh \<longrightarrow>
            read_loop c handle timeout (rs @ [ReadMessage p, Select pick]) r0 = AtHandoff p wh d) \<and>
         (timeout \<le> 0 \<and> \<not> exitReceive wh \<and> webReceive_cap \<le> length (webReceive wh) \<longrightarrow>
            read_loop c handle timeout (rs @ ReadMessage p # map Select picks) r0 = AtHandoff p wh d) \<and>
         (timeout \<le> 0 \<longrightarrow> dropped_of (read_loop c handle timeout (rs @ rs') r0) = d) \<and>
         (handleWebsocketReceive usr wtc sl rate es st = StillRunning s \<longrightarrow>
            trace (state_of (handleWebsocketReceive usr wtc sl rate (es @ Exit # es') st)) =
              trace s @ [Commander_Stop] \<and>
            (\<forall>s'. handleWebsocketReceive usr wtc sl rate (es @ Exit # es') st \<noteq> StillRunning s'))"
proof -
  let ?end = "read_loop c handle timeout (rs @ [ReadMessage p, Select pick]) r0"
  let ?h = "handoff timeout pick (inbound c handle p) wh"
  have r: "read_loop c handle timeout (rs @ [ReadMessage p]) r0 = AtHandoff p wh d"
    by (simp add: read_loop_append assms)
  have step: "?end =
      (case ?h of
         Enqueued wh' \<Rightarrow> AtRead wh' d
       | Dropped \<Rightarrow> AtRead wh (d @ [p])
       | Leaving \<Rightarrow> LeftLoop wh d
       | Waiting \<Rightarrow> AtHandoff p wh d)"
    by (simp add: read_loop_append assms split: handoff_end.splits)
  have "?end = AtRead wh (d @ [p]) \<longleftrightarrow> ?h = Dropped"
    unfolding step by (cases ?h) simp_all
  then have a: "?end = AtRead wh (d @ [p]) \<longleftrightarrow> 0 < timeout \<and> pick = TimeoutFires"
    by (simp only: handoff_Dropped)
  have "dropped_of ?end = (if ?h = Dropped then d @ [p] else d)"
    unfolding step by (cases ?h) simp_all
  then have b: "dropped_of ?end = (if 0 < timeout \<and> pick = TimeoutFires then d @ [p] else d)"
    by (simp only: handoff_Dropped)
  have e: "?end = AtRead (wh\<lparr>webReceive := webReceive wh @ [inbound c handle p]\<rparr>) d"
    if "pick = QueueAccepts \<and> length (webReceive wh) < webReceive_cap"
  proof -
    from that have "?h = Enqueued (wh\<lparr>webReceive := webReceive wh @ [inbound c handle p]\<rparr>)"
      by (simp add: handoff_Enqueued)
    then show ?thesis by (simp add: step)
  qed
  have l: "?end = LeftLoop wh d" if "pick = ExitClosed \<and> exitReceive wh"
  proof -
    from that have "?h = Leaving" by (simp add: handoff_Leaving)
    then show ?thesis by (simp add: step)
  qed
  have w: "?end = AtHandoff p wh d"
    if "timeout \<le> 0 \<and> pick = TimeoutFires \<or>
        pick = QueueAccepts \<and> webReceive_cap \<le> length (webReceive wh) \<or>
        pick = ExitClosed \<and> \<not> exitReceive wh"
  proof -
    from that have "?h = Waiting" by (simp only: handoff_Waiting)
    then show ?thesis by (simp add: step)
  qed
  have w': "read_loop c handle timeout (rs @ ReadMessage p # map Select picks) r0 = AtHandoff p wh d"
    if "timeout \<le> 0 \<and> \<not> exitReceive wh \<and> webReceive_cap \<le> length (webReceive wh)"
    using that by (simp add: read_loop_append assms read_loop_waits)
  have n: "dropped_of (read_loop c handle timeout (rs @ rs') r0) = d" if "timeout \<le> 0"
    using read_loop_drops_nothing [OF that, of c handle rs' "AtRead wh d"]
    by (simp add: read_loop_append assms)
  have x: "trace (state_of (handleWebsocketReceive usr wtc sl rate (es @ Exit # es') st)) =
        trace s @ [Commander_Stop] \<and>
      (\<forall>s'. handleWebsocketReceive usr wtc sl rate (es @ Exit # es') st \<noteq> StillRunning s')"
    if "handleWebsocketReceive usr wtc sl rate es st = StillRunning s"
    by (simp add: exit_step [OF that] split: outcome.splits)
  from r a b e l w w' n x show ?thesis by blast
qed

text \<open>
  The theorem on the flow of connection 7, bound to handler 3, at its first read on a
  new WebHandler: with a timeout of 1000 and the timer case taken, the message is
  dropped; with no timeout the same pick leaves the flow in its select and the
  message in hand, and the send puts the message into the queue. With no timeout and
  five items in the queue, the flow stays in its select through three picks. Then the
  control loop that takes the exit signal with that message queued behind.
\<close>

theorem message_hand_off_witness:
  "read_loop 7 (HandlerRef 3) 1000 [] (AtRead (new_WebHandler 0) []) = AtRead (new_WebHandler 0) [] \<and>
   read_loop 7 (HandlerRef 3) 1000 ([] @ [ReadMessage [104, 105], Select TimeoutFires])
       (AtRead (new_WebHandler 0) []) =
     AtRead (new_WebHandler 0) [[104, 105]] \<and>
   read_loop 7 (HandlerRef 3) 0 [] (AtRead (new_WebHandler 0) []) = AtRead (new_WebHandler 0) [] \<and>
   read_loop 7 (HandlerRef 3) 0 ([] @ [ReadMessage [104, 105], Select TimeoutFires])
       (AtRead (new_WebHandler 0) []) =
     AtHandoff [104, 105] (new_WebHandler 0) [] \<and>
   read_loop 7 (HandlerRef 3) 0 ([] @ [ReadMessage [104, 105], Select QueueAccepts])
       (AtRead (new_WebHandler 0) []) =
     AtRead ((new_WebHandler 0)\<lparr>webReceive := [inbound 7 (HandlerRef 3) [104, 105]]\<rparr>) [] \<and>
   read_loop 7 (HandlerRef 3) 0 [OtherFlows full_queue_WebHandler]
       (AtRead (new_WebHandler 0) []) = AtRead full_queue_WebHandler [] \<and>
   read_loop 7 (HandlerRef 3) 0
       ([OtherFlows full_queue_WebHandler] @
        ReadMessage [104, 105] # map Select [QueueAccepts, TimeoutFires, ExitClosed])
       (AtRead (new_WebHandler 0) []) =
     AtHandoff [104, 105] full_queue_WebHandler [] \<and>
   handleWebsocketReceive counting_user 0 [HandlerRef 3] 0 [] \<lparr>trace = [], ustate = 0\<rparr> =
     StillRunning \<lparr>trace = [], ustate = 0\<rparr> \<and>
   trace (state_of (handleWebsocketReceive counting_user 0 [HandlerRef 3] 0
       ([] @ Exit # [Receive (Msg (inbound 7 (HandlerRef 3) [104, 105]))])
       \<lparr>trace = [], ustate = 0\<rparr>)) = [Commander_Stop]"
proof -
  let ?wh = "new_WebHandler 0"
  let ?st = "\<lparr>trace = [], ustate = 0::nat\<rparr>"
  let ?m = "inbound 7 (HandlerRef 3) [104, 105]"
  have r1: "read_loop 7 (HandlerRef 3) 1000 [] (AtRead ?wh []) = AtRead ?wh []" by simp
  have r0: "read_loop 7 (HandlerRef 3) 0 [] (AtRead ?wh []) = AtRead ?wh []" by simp
  have rf: "read_loop 7 (HandlerRef 3) 0 [OtherFlows full_queue_WebHandler] (AtRead ?wh []) =
      AtRead full_queue_WebHandler []"
    by simp
  have run0: "handleWebsocketReceive counting_user 0 [HandlerRef 3] 0 [] ?st = StillRunning ?st"
    by (simp add: handleWebsocketReceive_def)
  have room: "length (webReceive ?wh) < webReceive_cap"
    by (simp add: new_WebHandler_def webReceive_cap_def)
  have full: "(0::int) \<le> 0 \<and> \<not> exitReceive full_queue_WebHandler \<and>
      webReceive_cap \<le> length (webReceive full_queue_WebHandler)"
    by (simp add: full_queue_WebHandler_def new_WebHandler_def webReceive_cap_def)
  have t1: "(0::int) < 1000 \<and> TimeoutFires = TimeoutFires" by simp
  have t0: "(0::int) \<le> 0 \<and> TimeoutFires = TimeoutFires" by simp
  have ta: "QueueAccepts = QueueAccepts \<and> length (webReceive ?wh) < webReceive_cap"
    using room by simp
  note T1 = message_hand_off [OF r1, where p = "[104, 105]" and rs' = "[]" and picks = "[]"
      and usr = counting_user and wtc = 0 and sl = "[HandlerRef 3]"
      and rate = 0 and es = "[]" and st = ?st and s = ?st and es' = "[Receive (Msg ?m)]"]
  note T0 = message_hand_off [OF r0, where p = "[104, 105]" and rs' = "[]" and picks = "[]"
      and usr = counting_user and wtc = 0 and sl = "[HandlerRef 3]"
      and rate = 0 and es = "[]" and st = ?st and s = ?st and es' = "[Receive (Msg ?m)]"]
  note TF = message_hand_off [OF rf, where p = "[104, 105]" and rs' = "[]"
      and picks = "[QueueAccepts, TimeoutFires, ExitClosed]" and pick = QueueAccepts
      and usr = counting_user and wtc = 0 and sl = "[HandlerRef 3]"
      and rate = 0 and es = "[]" and st = ?st and s = ?st and es' = "[Receive (Msg ?m)]"]
  from T1 [where pick = TimeoutFires] t1
  have a: "read_loop 7 (HandlerRef 3) 1000 ([] @ [ReadMessage [104, 105], Select TimeoutFires])
      (AtRead ?wh []) = AtRead ?wh ([] @ [[104, 105]])"
    by blast
  from T0 [where pick = TimeoutFires] t0
  have b: "read_loop 7 (HandlerRef 3) 0 ([] @ [ReadMessage [104, 105], Select TimeoutFires])
      (AtRead ?wh []) = AtHandoff [104, 105] ?wh []"
    by blast
  from T0 [where pick = QueueAccepts] ta
  have c: "read_loop 7 (HandlerRef 3) 0 ([] @ [ReadMessage [104, 105], Select QueueAccepts])
      (AtRead ?wh []) = AtRead (?wh\<lparr>webReceive := webReceive ?wh @ [?m]\<rparr>) []"
    by blast
  from TF full
  have f: "read_loop 7 (HandlerRef 3) 0
      ([OtherFlows full_queue_WebHandler] @
       ReadMessage [104, 105] # map Select [QueueAccepts, TimeoutFires, ExitClosed])
      (AtRead ?wh []) = AtHandoff [104, 105] full_queue_WebHandler []"
    by blast
  from T0 [where pick = QueueAccepts] run0
  have d: "trace (state_of (handleWebsocketReceive counting_user 0 [HandlerRef 3] 0
      ([] @ Exit # [Receive (Msg ?m)]) ?st)) = trace ?st @ [Commander_Stop]"
    by blast
  have q: "webReceive ?wh = []" by (simp add: new_WebHandler_def)
  have a': "read_loop 7 (HandlerRef 3) 1000 ([] @ [ReadMessage [104, 105], Select TimeoutFires])
      (AtRead ?wh []) = AtRead ?wh [[104, 105]]"
    using a by simp
  have c': "read_loop 7 (HandlerRef 3) 0 ([] @ [ReadMessage [104, 105], Select QueueAccepts])
      (AtRead ?wh []) = AtRead (?wh\<lparr>webReceive := [?m]\<rparr>) []"
    using c [unfolded q] by simp
  have d': "trace (state_of (handleWebsocketReceive counting_user 0 [HandlerRef 3] 0
      ([] @ Exit # [Receive (Msg ?m)]) ?st)) = [Commander_Stop]"
    using d by simp
  from r1 a' r0 b c' rf f run0 d' show ?thesis by blast
qed

text \<open>
  C6 as stated fails at shutdown, with no timeout. The flow of connection 7 reads a
  message, the queue accepts it, and the next read fails; the flow ends.
  \<open>Shutdown\<close> then finds no connection flow to wait for and closes
  \<open>exitReceive\<close>. The select of the control loop now has two cases ready, the
  queued message and the exit signal, and takes the exit signal: the loop calls
  \<open>Commander.Stop()\<close> and returns, and the message is never delivered.
\<close>

theorem queued_message_lost_at_shutdown:
  "read_loop 7 (HandlerRef 3) 0 [ReadMessage [104, 105], Select QueueAccepts, ReadError]
       (AtRead ((new_WebHandler 0)\<lparr>wsWG := 1, clients := [7 \<mapsto> HandlerRef 3]\<rparr>) []) =
     LeftLoop ((new_WebHandler 0)
       \<lparr>wsWG := 1, clients := [7 \<mapsto> HandlerRef 3],
        webReceive := [inbound 7 (HandlerRef 3) [104, 105]]\<rparr>) [] \<and>
   handleConnection_exit 7 ((new_WebHandler 0)
       \<lparr>wsWG := 1, clients := [7 \<mapsto> HandlerRef 3],
        webReceive := [inbound 7 (HandlerRef 3) [104, 105]]\<rparr>) =
     Inr ((new_WebHandler 0)\<lparr>webReceive := [inbound 7 (HandlerRef 3) [104, 105]]\<rparr>) \<and>
   Shutdown ((new_WebHandler 0)\<lparr>webReceive := [inbound 7 (HandlerRef 3) [104, 105]]\<rparr>) =
     BlockedOnLoop ((new_WebHandler 0)
       \<lparr>webReceive := [inbound 7 (HandlerRef 3) [104, 105]], doneConn := True,
        exitReceive := True\<rparr>) \<and>
   take_queued ((new_WebHandler 0)
       \<lparr>webReceive := [inbound 7 (HandlerRef 3) [104, 105]], doneConn := True,
        exitReceive := True\<rparr>) =
     Some (Receive (Msg (inbound 7 (HandlerRef 3) [104, 105])),
           (new_WebHandler 0)\<lparr>webReceive := [], doneConn := True, exitReceive := True\<rparr>) \<and>
   handleWebsocketReceive counting_user 0 [HandlerRef 3] 0
       [Exit, Receive (Msg (inbound 7 (HandlerRef 3) [104, 105]))]
       \<lparr>trace = [], ustate = 0\<rparr> =
     Finished \<lparr>trace = [Commander_Stop], ustate = 1\<rparr>"
  by (simp add: handoff_def webReceive_cap_def new_WebHandler_def handleConnection_exit_def
      Shutdown_def Shutdown_from_wait_def Shutdown_from_join_def take_queued_def
      handleWebsocketReceive_def invoke_def counting_user_def)

section \<open>Properties of shutdown\<close>

text \<open>
  A WaitGroup counter that is one above the number of running connection flows stays
  so, whatever the other flows do, once \<open>doneConn\<close> is closed: a request is
  rejected, a connection flow that ends lowers both numbers, and no other flow
  touches the counter. None of them closes \<open>exitReceive\<close>.
\<close>

lemma leak_step:
  assumes "flows_step (wh, live) (wh', live')"
    and "doneConn wh \<and> \<not> exitReceive wh \<and> finite live \<and> wsWG wh = 1 + int (card live)"
  shows "doneConn wh' \<and> \<not> exitReceive wh' \<and> finite live' \<and> wsWG wh' = 1 + int (card live')"
  using assms(1)
proof (cases rule: flows_step.cases)
  case (request h upg a)
  with assms(2) show ?thesis by (simp add: handleConnection_enter_def)
next
  case (flow_ends c)
  then have "card live' = card live - 1" "0 < card live"
    using assms(2) by (auto simp: card_gt_0_iff)
  with flow_ends assms(2) show ?thesis
    by (auto simp: handleConnection_exit_def Let_def split: if_splits)
next
  case (queue_moves q)
  with assms(2) show ?thesis by simp
next
  case loop_finishes
  with assms(2) show ?thesis by simp
next
  case loop_unwinds
  with assms(2) show ?thesis by simp
qed

lemma leak_persists:
  assumes "flows_step\<^sup>*\<^sup>* (wh0, live0) (wh, live)"
    and "doneConn wh0 \<and> \<not> exitReceive wh0 \<and> finite live0 \<and> wsWG wh0 = 1 + int (card live0)"
  shows "doneConn wh \<and> \<not> exitReceive wh \<and> finite live \<and> wsWG wh = 1 + int (card live)"
  using assms
proof (induction "(wh, live)" arbitrary: wh live rule: rtranclp_induct)
  case base
  then show ?case by simp
next
  case (step y)
  obtain wh1 live1 where y: "y = (wh1, live1)" by (cases y)
  from step.hyps(3) [OF y step.prems] step.hyps(2) [unfolded y]
  show ?case by (rule leak_step [rotated])
qed

text \<open>
  Claim C7, at the input where the code breaks it. A request whose upgrade fails
  leaves \<open>handleConnection\<close> with the WaitGroup counter raised and never lowered:
  the function returns before it registers the deferred \<open>Done\<close>. No connection is
  registered, so no connection flow is left to lower the counter. \<open>Shutdown\<close> on
  that state closes \<open>doneConn\<close> and then waits in \<open>wsWG.Wait()\<close> on a counter of
  one. Whatever the other flows do from there, the wait cannot end: \<open>Shutdown\<close>
  does not return and never closes \<open>exitReceive\<close>, so the control loop is never
  told to stop and the shutdown brings about no call of \<open>Commander.Stop()\<close>.
\<close>

theorem failed_upgrade_blocks_Shutdown:
  "handleConnection_enter h UpgradeError (new_WebHandler wtc) =
     (UpgradeFailed, (new_WebHandler wtc)\<lparr>wsWG := 1\<rparr>) \<and>
   clients ((new_WebHandler wtc)\<lparr>wsWG := 1\<rparr>) = Map.empty \<and>
   Shutdown ((new_WebHandler wtc)\<lparr>wsWG := 1\<rparr>) =
     BlockedInWait ((new_WebHandler wtc)\<lparr>wsWG := 1, doneConn := True\<rparr>) \<and>
   (\<forall>wh live.
      flows_step\<^sup>*\<^sup>* ((new_WebHandler wtc)\<lparr>wsWG := 1, doneConn := True\<rparr>, {}) (wh, live) \<longrightarrow>
      Shutdown_from_wait wh = BlockedInWait wh \<and> \<not> exitReceive wh)"
proof -
  have "Shutdown_from_wait wh = BlockedInWait wh \<and> \<not> exitReceive wh"
    if "flows_step\<^sup>*\<^sup>* ((new_WebHandler wtc)\<lparr>wsWG := 1, doneConn := True\<rparr>, {}) (wh, live)"
    for wh live
  proof -
    have "doneConn wh \<and> \<not> exitReceive wh \<and> finite live \<and> wsWG wh = 1 + int (card live)"
      by (rule leak_persists [OF that]) (simp add: new_WebHandler_def)
    then show ?thesis by (simp add: Shutdown_from_wait_def)
  qed
  then show ?thesis
    by (simp add: handleConnection_enter_def Shutdown_def Shutdown_from_wait_def new_WebHandler_def)
qed

text \<open>
  The theorem after one more step of the other flows: a second request arrives
  while \<open>Shutdown\<close> waits, and is rejected.
\<close>

theorem failed_upgrade_blocks_Shutdown_witness:
  "flows_step\<^sup>*\<^sup>* ((new_WebHandler 0)\<lparr>wsWG := 1, doneConn := True\<rparr>, {})
     ((new_WebHandler 0)\<lparr>wsWG := 1, doneConn := True\<rparr>, {}) \<and>
   flows_step ((new_WebHandler 0)\<lparr>wsWG := 1, doneConn := True\<rparr>, {})
     ((new_WebHandler 0)\<lparr>wsWG := 1, doneConn := True\<rparr>, {}) \<and>
   Shutdown_from_wait ((new_WebHandler 0)\<lparr>wsWG := 1, doneConn := True\<rparr>) =
     BlockedInWait ((new_WebHandler 0)\<lparr>wsWG := 1, doneConn := True\<rparr>)"
proof -
  let ?wh = "(new_WebHandler 0)\<lparr>wsWG := 1, doneConn := True\<rparr>"
  have "handleConnection_enter (HandlerRef 3) (Upgraded 7) ?wh = (Rejected, ?wh)"
    by (simp add: handleConnection_enter_def)
  from flows_step.request [OF this, of "{}"]
  have step: "flows_step (?wh, {}) (?wh, {})" by simp
  then have reach: "flows_step\<^sup>*\<^sup>* (?wh, {}) (?wh, {})" by (rule r_into_rtranclp)
  from failed_upgrade_blocks_Shutdown [of "HandlerRef 3" 0] reach
  have "Shutdown_from_wait ?wh = BlockedInWait ?wh" by blast
  with reach step show ?thesis by blast
qed

text \<open>
  The sibling path, for comparison: a request whose upgrade succeeds registers the
  connection; \<open>Shutdown\<close> empties the registry and waits for the connection flow;
  the flow's deferred function lowers the counter to zero; \<open>Shutdown\<close> then closes
  \<open>exitReceive\<close> and waits for the control loop, and returns once the loop has
  closed \<open>finishedExit\<close>.
\<close>

lemma registered_connection_lets_Shutdown_return:
  "handleConnection_enter h (Upgraded c) (new_WebHandler wtc) =
     (Registered c, (new_WebHandler wtc)\<lparr>wsWG := 1, clients := [c \<mapsto> h]\<rparr>) \<and>
   Shutdown ((new_WebHandler wtc)\<lparr>wsWG := 1, clients := [c \<mapsto> h]\<rparr>) =
     BlockedInWait ((new_WebHandler wtc)\<lparr>wsWG := 1, doneConn := True\<rparr>) \<and>
   handleConnection_exit c ((new_WebHandler wtc)\<lparr>wsWG := 1, doneConn := True\<rparr>) =
     Inr ((new_WebHandler wtc)\<lparr>wsWG := 0, doneConn := True\<rparr>) \<and>
   Shutdown_from_wait ((new_WebHandler wtc)\<lparr>wsWG := 0, doneConn := True\<rparr>) =
     BlockedOnLoop ((new_WebHandler wtc)\<lparr>doneConn := True, exitReceive := True\<rparr>) \<and>
   Shutdown_from_join ((new_WebHandler wtc)\<lparr>doneConn := True, exitReceive := True, finishedExit := True\<rparr>) =
     ShutdownReturned ((new_WebHandler wtc)
       \<lparr>doneConn := True, exitReceive := True, finishedExit := True, exitTransmit := True\<rparr>)"
  by (simp add: handleConnection_enter_def handleConnection_exit_def Shutdown_def
      Shutdown_from_wait_def Shutdown_from_join_def new_WebHandler_def)

text \<open>
  A call of \<open>Shutdown\<close> that gets past its first lines leaves \<open>doneConn\<close> closed
  and the registry empty, wherever it ends; and \<open>Shutdown\<close> on a WebHandler whose
  \<open>doneConn\<close> is closed panics (the close of a closed channel).
\<close>

lemma Shutdown_closes_doneConn:
  assumes "Shutdown wh = BlockedInWait wh' \<or> Shutdown wh = BlockedOnLoop wh' \<or>
    Shutdown wh = ShutdownReturned wh'"
  shows "doneConn wh' \<and> clients wh' = Map.empty"
  using assms
  by (auto simp: Shutdown_def Shutdown_from_wait_def Shutdown_from_join_def split: if_splits)

lemma second_Shutdown_panics:
  "doneConn wh \<Longrightarrow> Shutdown wh = ShutdownPanicked CloseOfClosedChannel"
  by (simp add: Shutdown_def)

end
